theory Spec2Isabelle
  imports Complex_Main "HOL-Library.Sublist" "HOL-Library.Word"
begin

section \<open>Parameter penalties of \<open>mlp/penalties.py\<close>\<close>

text \<open>
  The module defines three classes, \<open>L1Penalty\<close>, \<open>L2Penalty\<close> and \<open>L1L2MixPenalty\<close>,
  each with a constructor, \<open>__call__\<close> (the penalty value) and \<open>grad\<close>.  Their bodies are
  single NumPy expressions over the parameter array.

  The module never names an element type: every method works on whatever array it is
  given.  Two element types are modelled.  An array of \<open>float64\<close> has elements of type
  \<^typ>\<open>real\<close>, and so has the coefficient, a Python float: rounding, underflow to zero,
  overflow to infinity and NaN are not modelled.  An array of \<open>int64\<close> has elements of
  type \<^typ>\<open>64 word\<close>, whose arithmetic wraps modulo \<open>2 ^ 64\<close> as NumPy's does.
\<close>

subsection \<open>NumPy arrays and the primitives the module calls\<close>

text \<open>
  An n-dimensional array is its shape and its elements in row-major order, which is how
  NumPy stores a contiguous array.  The elementwise primitives keep the shape and map
  over the elements; \<open>np.sum\<close> without an axis adds up all elements.
\<close>

record ndarray =
  shape :: "nat list"
  data :: "real list"

text \<open>\<open>np.abs(a)\<close>: a new array of the absolute values.\<close>

definition np_abs :: "ndarray \<Rightarrow> ndarray" where
  "np_abs a = \<lparr>shape = shape a, data = map abs (data a)\<rparr>"

text \<open>\<open>np.sign\<close> of one number: \<open>-1\<close> if \<open>x < 0\<close>, \<open>0\<close> if \<open>x == 0\<close>, \<open>1\<close> if \<open>x > 0\<close>.\<close>

definition sign :: "real \<Rightarrow> real" where
  "sign x = (if x < 0 then - 1 else if x = 0 then 0 else 1)"

definition np_sign :: "ndarray \<Rightarrow> ndarray" where
  "np_sign a = \<lparr>shape = shape a, data = map sign (data a)\<rparr>"

text \<open>\<open>a ** n\<close> for an integer literal \<open>n\<close>: elementwise power.\<close>

definition np_power :: "ndarray \<Rightarrow> nat \<Rightarrow> ndarray" where
  "np_power a n = \<lparr>shape = shape a, data = map (\<lambda>x. x ^ n) (data a)\<rparr>"

text \<open>\<open>np.sum(a)\<close>: the sum of all elements, a scalar.\<close>

definition np_sum :: "ndarray \<Rightarrow> real" where
  "np_sum a = sum_list (data a)"

text \<open>\<open>c * a\<close> for a scalar \<open>c\<close>: the scalar is broadcast over the array.\<close>

definition scalar_mul :: "real \<Rightarrow> ndarray \<Rightarrow> ndarray" where
  "scalar_mul c a = \<lparr>shape = shape a, data = map (\<lambda>x. c * x) (data a)\<rparr>"

text \<open>
  Errors.  \<open>AssertionError\<close> carries the message of the failed \<open>assert\<close>.
  \<open>ShapeMismatch\<close> stands for the addition of two arrays of different shapes, where NumPy
  either broadcasts or raises \<open>ValueError\<close>; the module only ever adds arrays of one shape,
  and the theorems below show that this branch is never taken.  \<open>BadReference\<close> is the
  read of an address that holds no array, which Python's references cannot produce.
\<close>

datatype error = AssertionError string | ShapeMismatch | BadReference

text \<open>\<open>a + b\<close> for two arrays of the same shape: elementwise sum.\<close>

definition np_add :: "ndarray \<Rightarrow> ndarray \<Rightarrow> error + ndarray" where
  "np_add a b =
     (if shape a = shape b \<and> length (data a) = length (data b)
      then Inr \<lparr>shape = shape a, data = map2 (+) (data a) (data b)\<rparr>
      else Inl ShapeMismatch)"

subsection \<open>\<open>class L1Penalty\<close>\<close>

record L1Penalty =
  coefficient :: real

text \<open>
  \<open>__init__\<close>: \<open>assert coefficient > 0.0, "Penalty coefficient must be positive."\<close>, then
  the field is set.  A failed assertion raises, so no object is returned.
\<close>

definition L1Penalty_init :: "real \<Rightarrow> error + L1Penalty" where
  "L1Penalty_init c =
     (if c > 0.0 then Inr \<lparr>L1Penalty.coefficient = c\<rparr>
      else Inl (AssertionError ''Penalty coefficient must be positive.''))"

text \<open>\<open>__call__\<close>: \<open>self.coefficient * np.sum(np.abs(parameter))\<close>.\<close>

definition L1Penalty_call :: "L1Penalty \<Rightarrow> ndarray \<Rightarrow> real" where
  "L1Penalty_call self parameter =
     L1Penalty.coefficient self * np_sum (np_abs parameter)"

text \<open>\<open>grad\<close>: \<open>self.coefficient * np.sign(parameter)\<close>.\<close>

definition L1Penalty_grad :: "L1Penalty \<Rightarrow> ndarray \<Rightarrow> ndarray" where
  "L1Penalty_grad self parameter =
     scalar_mul (L1Penalty.coefficient self) (np_sign parameter)"

subsection \<open>\<open>class L2Penalty\<close>\<close>

record L2Penalty =
  coefficient :: real

definition L2Penalty_init :: "real \<Rightarrow> error + L2Penalty" where
  "L2Penalty_init c =
     (if c > 0.0 then Inr \<lparr>L2Penalty.coefficient = c\<rparr>
      else Inl (AssertionError ''Penalty coefficient must be positive.''))"

text \<open>\<open>__call__\<close>: \<open>0.5 * self.coefficient * np.sum(parameter**2)\<close>.\<close>

definition L2Penalty_call :: "L2Penalty \<Rightarrow> ndarray \<Rightarrow> real" where
  "L2Penalty_call self parameter =
     0.5 * L2Penalty.coefficient self * np_sum (np_power parameter 2)"

text \<open>\<open>grad\<close>: \<open>self.coefficient * parameter\<close>.\<close>

definition L2Penalty_grad :: "L2Penalty \<Rightarrow> ndarray \<Rightarrow> ndarray" where
  "L2Penalty_grad self parameter =
     scalar_mul (L2Penalty.coefficient self) parameter"

subsection \<open>\<open>class L1L2MixPenalty\<close>\<close>

record L1L2MixPenalty =
  l1_coefficient :: real
  l2_coefficient :: real

text \<open>\<open>__init__\<close> stores both coefficients; it has no \<open>assert\<close>.\<close>

definition L1L2MixPenalty_init :: "real \<Rightarrow> real \<Rightarrow> error + L1L2MixPenalty" where
  "L1L2MixPenalty_init c1 c2 = Inr \<lparr>l1_coefficient = c1, l2_coefficient = c2\<rparr>"

definition L1L2MixPenalty_call :: "L1L2MixPenalty \<Rightarrow> ndarray \<Rightarrow> real" where
  "L1L2MixPenalty_call self parameter =
     (let l1_penalty = l1_coefficient self * np_sum (np_abs parameter);
          l2_penalty = 0.5 * l2_coefficient self * np_sum (np_power parameter 2);
          penalty = l1_penalty + l2_penalty
      in penalty)"

definition L1L2MixPenalty_grad :: "L1L2MixPenalty \<Rightarrow> ndarray \<Rightarrow> error + ndarray" where
  "L1L2MixPenalty_grad self parameter =
     (let l1_grad = scalar_mul (l1_coefficient self) (np_sign parameter);
          l2_grad = scalar_mul (l2_coefficient self) parameter
      in np_add l1_grad l2_grad)"

subsection \<open>Arrays of \<open>int64\<close>\<close>

text \<open>
  On an array of dtype \<open>int64\<close> the primitives of the two \<open>__call__\<close> methods compute in
  64-bit two's complement and wrap silently: \<open>np.abs\<close> negates a negative element,
  \<open>parameter**2\<close> multiplies in \<open>int64\<close>, and \<open>np.sum\<close> accumulates in \<open>int64\<close> and returns
  an \<open>int64\<close> scalar.  The product of the Python float coefficient with that scalar is a
  \<open>float64\<close>: the scalar is converted (\<open>float_of_i64\<close>, its signed value) and multiplied.
\<close>

record int64_array =
  shape_i64 :: "nat list"
  data_i64 :: "64 word list"

definition abs_i64 :: "64 word \<Rightarrow> 64 word" where
  "abs_i64 x = (if sint x < 0 then - x else x)"

definition np_abs_i64 :: "int64_array \<Rightarrow> int64_array" where
  "np_abs_i64 a = \<lparr>shape_i64 = shape_i64 a, data_i64 = map abs_i64 (data_i64 a)\<rparr>"

definition np_power_i64 :: "int64_array \<Rightarrow> nat \<Rightarrow> int64_array" where
  "np_power_i64 a n = \<lparr>shape_i64 = shape_i64 a, data_i64 = map (\<lambda>x. x ^ n) (data_i64 a)\<rparr>"

definition np_sum_i64 :: "int64_array \<Rightarrow> 64 word" where
  "np_sum_i64 a = sum_list (data_i64 a)"

definition float_of_i64 :: "64 word \<Rightarrow> real" where
  "float_of_i64 x = real_of_int (sint x)"

text \<open>\<open>L1Penalty.__call__\<close>: \<open>self.coefficient * np.sum(np.abs(parameter))\<close>.\<close>

definition L1Penalty_call_i64 :: "L1Penalty \<Rightarrow> int64_array \<Rightarrow> real" where
  "L1Penalty_call_i64 self parameter =
     L1Penalty.coefficient self * float_of_i64 (np_sum_i64 (np_abs_i64 parameter))"

text \<open>\<open>L2Penalty.__call__\<close>: \<open>0.5 * self.coefficient * np.sum(parameter**2)\<close>.\<close>

definition L2Penalty_call_i64 :: "L2Penalty \<Rightarrow> int64_array \<Rightarrow> real" where
  "L2Penalty_call_i64 self parameter =
     0.5 * L2Penalty.coefficient self * float_of_i64 (np_sum_i64 (np_power_i64 parameter 2))"

subsection \<open>The methods on a store of arrays\<close>

text \<open>
  Python passes the parameter array by reference, and \<open>self\<close> is an object whose fields
  can be assigned.  To state what a call leaves unchanged, the six methods are given a
  second time as transformers of an explicit state: the object \<open>self\<close> and a store of
  arrays, in which the parameter is an address.  Each NumPy primitive the module calls
  is out of place: it reads its operands and puts its result into a fresh cell.  The
  module has no assignment to an element of an array and, after \<open>__init__\<close>, none to a
  field of \<open>self\<close>; cells of temporaries are never reclaimed in the model.
\<close>

type_synonym addr = nat

type_synonym store = "ndarray list"

definition load :: "addr \<Rightarrow> store \<Rightarrow> error + ndarray" where
  "load r s = (if r < length s then Inr (s ! r) else Inl BadReference)"

definition alloc :: "ndarray \<Rightarrow> store \<Rightarrow> addr \<times> store" where
  "alloc a s = (length s, s @ [a])"

definition np_abs_st :: "addr \<Rightarrow> store \<Rightarrow> error + (addr \<times> store)" where
  "np_abs_st r s = (case load r s of Inl e \<Rightarrow> Inl e | Inr a \<Rightarrow> Inr (alloc (np_abs a) s))"

definition np_sign_st :: "addr \<Rightarrow> store \<Rightarrow> error + (addr \<times> store)" where
  "np_sign_st r s = (case load r s of Inl e \<Rightarrow> Inl e | Inr a \<Rightarrow> Inr (alloc (np_sign a) s))"

definition np_power_st :: "addr \<Rightarrow> nat \<Rightarrow> store \<Rightarrow> error + (addr \<times> store)" where
  "np_power_st r n s =
     (case load r s of Inl e \<Rightarrow> Inl e | Inr a \<Rightarrow> Inr (alloc (np_power a n) s))"

definition np_sum_st :: "addr \<Rightarrow> store \<Rightarrow> error + (real \<times> store)" where
  "np_sum_st r s = (case load r s of Inl e \<Rightarrow> Inl e | Inr a \<Rightarrow> Inr (np_sum a, s))"

definition scalar_mul_st :: "real \<Rightarrow> addr \<Rightarrow> store \<Rightarrow> error + (addr \<times> store)" where
  "scalar_mul_st c r s =
     (case load r s of Inl e \<Rightarrow> Inl e | Inr a \<Rightarrow> Inr (alloc (scalar_mul c a) s))"

definition np_add_st :: "addr \<Rightarrow> addr \<Rightarrow> store \<Rightarrow> error + (addr \<times> store)" where
  "np_add_st r1 r2 s =
     (case load r1 s of Inl e \<Rightarrow> Inl e | Inr a \<Rightarrow>
      (case load r2 s of Inl e \<Rightarrow> Inl e | Inr b \<Rightarrow>
       (case np_add a b of Inl e \<Rightarrow> Inl e | Inr x \<Rightarrow> Inr (alloc x s))))"

text \<open>
  A method returns its result, the object \<open>self\<close> as the call leaves it, and the store as
  the call leaves it.
\<close>

definition L1Penalty_call_st ::
  "L1Penalty \<Rightarrow> addr \<Rightarrow> store \<Rightarrow> error + (real \<times> L1Penalty \<times> store)" where
  "L1Penalty_call_st self parameter s =
     (case np_abs_st parameter s of Inl e \<Rightarrow> Inl e | Inr (t, s1) \<Rightarrow>
      (case np_sum_st t s1 of Inl e \<Rightarrow> Inl e | Inr (v, s2) \<Rightarrow>
       Inr (L1Penalty.coefficient self * v, self, s2)))"

definition L1Penalty_grad_st ::
  "L1Penalty \<Rightarrow> addr \<Rightarrow> store \<Rightarrow> error + (addr \<times> L1Penalty \<times> store)" where
  "L1Penalty_grad_st self parameter s =
     (case np_sign_st parameter s of Inl e \<Rightarrow> Inl e | Inr (t, s1) \<Rightarrow>
      (case scalar_mul_st (L1Penalty.coefficient self) t s1 of Inl e \<Rightarrow> Inl e
       | Inr (grad, s2) \<Rightarrow> Inr (grad, self, s2)))"

definition L2Penalty_call_st ::
  "L2Penalty \<Rightarrow> addr \<Rightarrow> store \<Rightarrow> error + (real \<times> L2Penalty \<times> store)" where
  "L2Penalty_call_st self parameter s =
     (case np_power_st parameter 2 s of Inl e \<Rightarrow> Inl e | Inr (t, s1) \<Rightarrow>
      (case np_sum_st t s1 of Inl e \<Rightarrow> Inl e | Inr (v, s2) \<Rightarrow>
       Inr (0.5 * L2Penalty.coefficient self * v, self, s2)))"

definition L2Penalty_grad_st ::
  "L2Penalty \<Rightarrow> addr \<Rightarrow> store \<Rightarrow> error + (addr \<times> L2Penalty \<times> store)" where
  "L2Penalty_grad_st self parameter s =
     (case scalar_mul_st (L2Penalty.coefficient self) parameter s of Inl e \<Rightarrow> Inl e
      | Inr (grad, s1) \<Rightarrow> Inr (grad, self, s1))"

definition L1L2MixPenalty_call_st ::
  "L1L2MixPenalty \<Rightarrow> addr \<Rightarrow> store \<Rightarrow> error + (real \<times> L1L2MixPenalty \<times> store)" where
  "L1L2MixPenalty_call_st self parameter s =
     (case np_abs_st parameter s of Inl e \<Rightarrow> Inl e | Inr (t1, s1) \<Rightarrow>
      (case np_sum_st t1 s1 of Inl e \<Rightarrow> Inl e | Inr (v1, s2) \<Rightarrow>
       (case np_power_st parameter 2 s2 of Inl e \<Rightarrow> Inl e | Inr (t2, s3) \<Rightarrow>
        (case np_sum_st t2 s3 of Inl e \<Rightarrow> Inl e | Inr (v2, s4) \<Rightarrow>
         (let l1_penalty = l1_coefficient self * v1;
              l2_penalty = 0.5 * l2_coefficient self * v2;
              penalty = l1_penalty + l2_penalty
          in Inr (penalty, self, s4))))))"

definition L1L2MixPenalty_grad_st ::
  "L1L2MixPenalty \<Rightarrow> addr \<Rightarrow> store \<Rightarrow> error + (addr \<times> L1L2MixPenalty \<times> store)" where
  "L1L2MixPenalty_grad_st self parameter s =
     (case np_sign_st parameter s of Inl e \<Rightarrow> Inl e | Inr (t, s1) \<Rightarrow>
      (case scalar_mul_st (l1_coefficient self) t s1 of Inl e \<Rightarrow> Inl e
       | Inr (l1_grad, s2) \<Rightarrow>
       (case scalar_mul_st (l2_coefficient self) parameter s2 of Inl e \<Rightarrow> Inl e
        | Inr (l2_grad, s3) \<Rightarrow>
        (case np_add_st l1_grad l2_grad s3 of Inl e \<Rightarrow> Inl e
         | Inr (grad, s4) \<Rightarrow> Inr (grad, self, s4)))))"

section \<open>Properties\<close>

subsection \<open>Sums of non-negative terms\<close>

lemma sum_list_abs_nonneg: "0 \<le> sum_list (map abs (xs :: real list))"
  by (rule sum_list_nonneg) auto

lemma sum_list_abs_eq_0_iff:
  "sum_list (map abs (xs :: real list)) = 0 \<longleftrightarrow> (\<forall>x\<in>set xs. x = 0)"
  by (induction xs) (auto simp: add_nonneg_eq_0_iff sum_list_abs_nonneg)

lemma sum_list_sq_nonneg: "0 \<le> sum_list (map (\<lambda>x. x ^ 2) (xs :: real list))"
  by (rule sum_list_nonneg) auto

lemma sum_list_sq_eq_0_iff:
  "sum_list (map (\<lambda>x. x ^ 2) (xs :: real list)) = 0 \<longleftrightarrow> (\<forall>x\<in>set xs. x = 0)"
  by (induction xs) (auto simp: add_nonneg_eq_0_iff sum_list_sq_nonneg)

subsection \<open>Signed values of \<open>int64\<close> sums that do not wrap\<close>

lemma sint_eq_0_iff_i64: "sint (x :: 64 word) = 0 \<longleftrightarrow> x = 0"
  by (rule signed_eq_0_iff)

lemma sint_abs_i64:
  assumes "sint x \<noteq> - (2 ^ 63)"
  shows "sint (abs_i64 x) = \<bar>sint x\<bar>"
proof (cases "sint x < 0")
  case True
  have lo: "- (2 ^ 63) \<le> sint x" using sint_ge [of x] by simp
  have "sint (- x) = signed_take_bit 63 (- sint x)"
    by (simp add: sint_word_ariths)
  also have "\<dots> = - sint x"
    using True lo assms by (intro signed_take_bit_int_eq_self) auto
  finally show ?thesis using True by (simp add: abs_i64_def)
next
  case False
  then show ?thesis by (simp add: abs_i64_def)
qed

lemma sint_add_i64:
  fixes a b :: "64 word"
  assumes "- (2 ^ 63) \<le> sint a + sint b" and "sint a + sint b < 2 ^ 63"
  shows "sint (a + b) = sint a + sint b"
proof -
  have "sint (a + b) = signed_take_bit 63 (sint a + sint b)"
    by (simp add: sint_word_ariths)
  also have "\<dots> = sint a + sint b"
    using assms by (rule signed_take_bit_int_eq_self)
  finally show ?thesis .
qed

lemma sint_square_i64:
  fixes a :: "64 word"
  assumes "(sint a)\<^sup>2 < 2 ^ 63"
  shows "sint (a ^ 2) = (sint a)\<^sup>2"
proof -
  have "sint (a ^ 2) = signed_take_bit 63 (sint a * sint a)"
    by (simp add: power2_eq_square sint_word_ariths)
  also have "\<dots> = sint a * sint a"
  proof (rule signed_take_bit_int_eq_self)
    have "- (2 ^ 63) \<le> (0::int)" by simp
    also have "0 \<le> sint a * sint a" by simp
    finally show "- (2 ^ 63) \<le> sint a * sint a" .
    show "sint a * sint a < 2 ^ 63" using assms by (simp add: power2_eq_square)
  qed
  finally show ?thesis by (simp add: power2_eq_square)
qed

lemma sum_list_abs_int_nonneg: "0 \<le> (\<Sum>x\<leftarrow>xs. \<bar>sint (x :: 64 word)\<bar>)"
  by (rule sum_list_nonneg) auto

lemma sum_list_sq_int_nonneg: "0 \<le> (\<Sum>x\<leftarrow>xs. (sint (x :: 64 word))\<^sup>2)"
  by (rule sum_list_nonneg) auto

lemma sint_sum_abs_i64:
  assumes "(\<Sum>x\<leftarrow>xs. \<bar>sint x\<bar>) < 2 ^ 63"
  shows "sint (sum_list (map abs_i64 xs)) = (\<Sum>x\<leftarrow>xs. \<bar>sint x\<bar>)"
  using assms
proof (induction xs)
  case Nil
  then show ?case by simp
next
  case (Cons x xs)
  have rest: "0 \<le> (\<Sum>y\<leftarrow>xs. \<bar>sint y\<bar>)" by (rule sum_list_abs_int_nonneg)
  from Cons.prems have bound: "\<bar>sint x\<bar> + (\<Sum>y\<leftarrow>xs. \<bar>sint y\<bar>) < 2 ^ 63" by simp
  with rest have "\<bar>sint x\<bar> < 2 ^ 63" by linarith
  then have "sint x \<noteq> - (2 ^ 63)" by auto
  then have hd: "sint (abs_i64 x) = \<bar>sint x\<bar>" by (rule sint_abs_i64)
  from bound have "(\<Sum>y\<leftarrow>xs. \<bar>sint y\<bar>) < 2 ^ 63" by linarith
  then have tl: "sint (sum_list (map abs_i64 xs)) = (\<Sum>y\<leftarrow>xs. \<bar>sint y\<bar>)"
    by (rule Cons.IH)
  have "sint (abs_i64 x + sum_list (map abs_i64 xs)) =
      sint (abs_i64 x) + sint (sum_list (map abs_i64 xs))"
    by (rule sint_add_i64) (use hd tl rest bound in linarith)+
  with hd tl show ?case by simp
qed

lemma sint_sum_sq_i64:
  fixes xs :: "64 word list"
  assumes "(\<Sum>x\<leftarrow>xs. (sint x)\<^sup>2) < 2 ^ 63"
  shows "sint (sum_list (map (\<lambda>x. x ^ 2) xs)) = (\<Sum>x\<leftarrow>xs. (sint x)\<^sup>2)"
  using assms
proof (induction xs)
  case Nil
  then show ?case by simp
next
  case (Cons x xs)
  have rest: "0 \<le> (\<Sum>y\<leftarrow>xs. (sint y)\<^sup>2)" by (rule sum_list_sq_int_nonneg)
  have sq: "0 \<le> (sint x)\<^sup>2" by simp
  from Cons.prems have bound: "(sint x)\<^sup>2 + (\<Sum>y\<leftarrow>xs. (sint y)\<^sup>2) < 2 ^ 63" by simp
  with rest have "(sint x)\<^sup>2 < 2 ^ 63" by linarith
  then have hd: "sint (x ^ 2) = (sint x)\<^sup>2" by (rule sint_square_i64)
  from bound sq have "(\<Sum>y\<leftarrow>xs. (sint y)\<^sup>2) < 2 ^ 63" by linarith
  then have tl: "sint (sum_list (map (\<lambda>x. x ^ 2) xs)) = (\<Sum>y\<leftarrow>xs. (sint y)\<^sup>2)"
    by (rule Cons.IH)
  have "sint (x ^ 2 + sum_list (map (\<lambda>x. x ^ 2) xs)) =
      sint (x ^ 2) + sint (sum_list (map (\<lambda>x. x ^ 2) xs))"
    by (rule sint_add_i64) (use hd tl rest sq bound in linarith)+
  with hd tl show ?case by simp
qed

lemma sum_list_abs_int_eq_0_iff:
  "(\<Sum>x\<leftarrow>xs. \<bar>sint (x :: 64 word)\<bar>) = 0 \<longleftrightarrow> (\<forall>x\<in>set xs. x = 0)"
  by (induction xs) (auto simp: add_nonneg_eq_0_iff sum_list_abs_int_nonneg sint_eq_0_iff_i64)

lemma sum_list_sq_int_eq_0_iff:
  "(\<Sum>x\<leftarrow>xs. (sint (x :: 64 word))\<^sup>2) = 0 \<longleftrightarrow> (\<forall>x\<in>set xs. x = 0)"
  by (induction xs) (auto simp: add_nonneg_eq_0_iff sum_list_sq_int_nonneg sint_eq_0_iff_i64)

lemma sum_list_abs_i64_zeros:
  "\<forall>x\<in>set xs. x = 0 \<Longrightarrow> sum_list (map abs_i64 xs) = 0"
  by (induction xs) (simp_all add: abs_i64_def)

lemma sum_list_sq_i64_zeros:
  "\<forall>x\<in>set xs. x = 0 \<Longrightarrow> sum_list (map (\<lambda>x. x ^ 2) xs) = (0 :: 64 word)"
  by (induction xs) simp_all

subsection \<open>Shape and elements of the array primitives\<close>

lemma shape_scalar_mul: "shape (scalar_mul c a) = shape a"
  by (simp add: scalar_mul_def)

lemma length_scalar_mul: "length (data (scalar_mul c a)) = length (data a)"
  by (simp add: scalar_mul_def)

lemma nth_scalar_mul:
  "i < length (data a) \<Longrightarrow> data (scalar_mul c a) ! i = c * data a ! i"
  by (simp add: scalar_mul_def)

lemma shape_np_sign: "shape (np_sign a) = shape a"
  by (simp add: np_sign_def)

lemma length_np_sign: "length (data (np_sign a)) = length (data a)"
  by (simp add: np_sign_def)

lemma nth_np_sign:
  "i < length (data a) \<Longrightarrow> data (np_sign a) ! i = sign (data a ! i)"
  by (simp add: np_sign_def)

lemma np_add_same_shape:
  assumes "shape a = shape b" and "length (data a) = length (data b)"
  shows "np_add a b = Inr \<lparr>shape = shape a, data = map2 (+) (data a) (data b)\<rparr>"
  using assms by (simp add: np_add_def)

subsection \<open>The L1 penalty\<close>

text \<open>
  C1, on every numeric array.  The value of \<open>L1Penalty(c)\<close> is not non-negative on
  every numeric array.  On the \<open>int64\<close> array \<open>[-2^63]\<close> with \<open>c = 1\<close> the construction
  succeeds, \<open>np.abs\<close> wraps and leaves \<open>-2^63\<close>, the sum is \<open>-2^63\<close>, and the value is
  \<open>-2^63\<close>.
\<close>

theorem L1Penalty_value_int64_min_negative:
  "L1Penalty_init 1 = Inr \<lparr>L1Penalty.coefficient = 1\<rparr> \<and>
   L1Penalty_call_i64 \<lparr>L1Penalty.coefficient = 1\<rparr>
     \<lparr>shape_i64 = [1], data_i64 = [- 9223372036854775808]\<rparr> = - 9223372036854775808 \<and>
   \<not> 0 \<le> L1Penalty_call_i64 \<lparr>L1Penalty.coefficient = 1\<rparr>
     \<lparr>shape_i64 = [1], data_i64 = [- 9223372036854775808]\<rparr>"
  by (simp add: L1Penalty_init_def L1Penalty_call_i64_def float_of_i64_def np_sum_i64_def
      np_abs_i64_def abs_i64_def)

text \<open>
  C1, by element type.  For every floating-point coefficient \<open>c > 0\<close> the construction
  \<open>L1Penalty(c)\<close> succeeds, and on every \<open>float64\<close> array \<open>A\<close> and every \<open>int64\<close> array
  \<open>B\<close> the value of the object is the scalar \<open>c * sum(abs(.))\<close>, with \<open>abs\<close> and \<open>sum\<close>
  taken in the arithmetic of the element type; it is zero if every element is zero.  On
  the \<open>float64\<close> array the value is non-negative.  On the \<open>int64\<close> array, provided the
  magnitudes of its elements sum to less than \<open>2^63\<close>, neither \<open>abs\<close> nor the sum wraps,
  the value is non-negative, and it is zero only if every element is zero.

  Nothing is said of when the value on a \<open>float64\<close> array is zero beyond the case of an
  array of zeros: the product of two small floats rounds to zero, and rounding is not
  part of the model.
\<close>

theorem L1Penalty_value_by_dtype:
  assumes "0 < c"
  shows "\<exists>self. L1Penalty_init c = Inr self \<and>
           L1Penalty_call self A = c * (\<Sum>x\<leftarrow>data A. \<bar>x\<bar>) \<and>
           0 \<le> L1Penalty_call self A \<and>
           ((\<forall>x\<in>set (data A). x = 0) \<longrightarrow> L1Penalty_call self A = 0) \<and>
           L1Penalty_call_i64 self B =
             c * real_of_int (sint (sum_list (map abs_i64 (data_i64 B)))) \<and>
           ((\<forall>x\<in>set (data_i64 B). x = 0) \<longrightarrow> L1Penalty_call_i64 self B = 0) \<and>
           ((\<Sum>x\<leftarrow>data_i64 B. \<bar>sint x\<bar>) < 2 ^ 63 \<longrightarrow>
              L1Penalty_call_i64 self B = c * real_of_int (\<Sum>x\<leftarrow>data_i64 B. \<bar>sint x\<bar>) \<and>
              0 \<le> L1Penalty_call_i64 self B \<and>
              (L1Penalty_call_i64 self B = 0 \<longrightarrow> (\<forall>x\<in>set (data_i64 B). x = 0)))"
proof -
  let ?self = "\<lparr>L1Penalty.coefficient = c\<rparr>"
  let ?S = "\<Sum>x\<leftarrow>data_i64 B. \<bar>sint x\<bar>"
  have init: "L1Penalty_init c = Inr ?self"
    using assms by (simp add: L1Penalty_init_def)
  have val: "L1Penalty_call ?self A = c * (\<Sum>x\<leftarrow>data A. \<bar>x\<bar>)"
    by (simp add: L1Penalty_call_def np_sum_def np_abs_def)
  have nonneg: "0 \<le> L1Penalty_call ?self A"
    unfolding val using assms sum_list_abs_nonneg [of "data A"] by simp
  have zero: "L1Penalty_call ?self A = 0" if "\<forall>x\<in>set (data A). x = 0"
    unfolding val using that sum_list_abs_eq_0_iff [of "data A"] by simp
  have ival: "L1Penalty_call_i64 ?self B =
      c * real_of_int (sint (sum_list (map abs_i64 (data_i64 B))))"
    by (simp add: L1Penalty_call_i64_def float_of_i64_def np_sum_i64_def np_abs_i64_def)
  have izero: "L1Penalty_call_i64 ?self B = 0" if "\<forall>x\<in>set (data_i64 B). x = 0"
    unfolding ival using sum_list_abs_i64_zeros [OF that] by simp
  have exact: "L1Penalty_call_i64 ?self B = c * real_of_int ?S \<and>
      0 \<le> L1Penalty_call_i64 ?self B \<and>
      (L1Penalty_call_i64 ?self B = 0 \<longrightarrow> (\<forall>x\<in>set (data_i64 B). x = 0))"
    if small: "?S < 2 ^ 63"
  proof -
    have e: "L1Penalty_call_i64 ?self B = c * real_of_int ?S"
      unfolding ival using sint_sum_abs_i64 [OF small] by simp
    have n: "0 \<le> L1Penalty_call_i64 ?self B"
      unfolding e using assms sum_list_abs_int_nonneg [of "data_i64 B"] by simp
    have z: "\<forall>x\<in>set (data_i64 B). x = 0" if "L1Penalty_call_i64 ?self B = 0"
    proof -
      from that assms have "?S = 0" unfolding e by simp
      then show ?thesis by (simp only: sum_list_abs_int_eq_0_iff)
    qed
    from e n z show ?thesis by blast
  qed
  from init val nonneg zero ival izero exact show ?thesis by blast
qed

theorem L1Penalty_value_by_dtype_witness:
  "(0::real) < 1 / 2 \<and>
   (\<Sum>x\<leftarrow>[- 2, 0, 3 :: 64 word]. \<bar>sint x\<bar>) < 2 ^ 63 \<and>
   (\<exists>self. L1Penalty_init (1 / 2) = Inr self \<and>
      L1Penalty_call self \<lparr>shape = [3], data = [- 2, 0, 3]\<rparr> = 5 / 2 \<and>
      L1Penalty_call self \<lparr>shape = [3], data = [0, 0, 0]\<rparr> = 0 \<and>
      L1Penalty_call_i64 self \<lparr>shape_i64 = [3], data_i64 = [- 2, 0, 3]\<rparr> = 5 / 2 \<and>
      L1Penalty_call_i64 self \<lparr>shape_i64 = [3], data_i64 = [0, 0, 0]\<rparr> = 0)"
proof -
  have pos: "(0::real) < 1 / 2" by simp
  have small: "(\<Sum>x\<leftarrow>[- 2, 0, 3 :: 64 word]. \<bar>sint x\<bar>) < 2 ^ 63" by simp
  from L1Penalty_value_by_dtype [OF pos, of "\<lparr>shape = [3], data = [- 2, 0, 3]\<rparr>"
      "\<lparr>shape_i64 = [3], data_i64 = [- 2, 0, 3]\<rparr>"]
  obtain self where init: "L1Penalty_init (1 / 2) = Inr self"
    and a: "L1Penalty_call self \<lparr>shape = [3], data = [- 2, 0, 3]\<rparr> = 5 / 2"
    and b: "L1Penalty_call_i64 self \<lparr>shape_i64 = [3], data_i64 = [- 2, 0, 3]\<rparr> = 5 / 2"
    by auto
  from L1Penalty_value_by_dtype [OF pos, of "\<lparr>shape = [3], data = [0, 0, 0]\<rparr>"
      "\<lparr>shape_i64 = [3], data_i64 = [0, 0, 0]\<rparr>"] init
  have c: "L1Penalty_call self \<lparr>shape = [3], data = [0, 0, 0]\<rparr> = 0"
    and d: "L1Penalty_call_i64 self \<lparr>shape_i64 = [3], data_i64 = [0, 0, 0]\<rparr> = 0"
    by auto
  from pos small init a b c d show ?thesis by blast
qed

text \<open>
  C2.  For every coefficient \<open>c > 0\<close> and every array \<open>A\<close>, \<open>L1Penalty(c).grad(A)\<close> is an
  array of the shape of \<open>A\<close>, with as many elements, whose element at each position is
  \<open>c\<close> where the element of \<open>A\<close> is positive, \<open>-c\<close> where it is negative and \<open>0\<close> where it
  is zero.
\<close>

theorem L1Penalty_grad_sign:
  assumes "0 < c"
  shows "\<exists>self. L1Penalty_init c = Inr self \<and>
           shape (L1Penalty_grad self A) = shape A \<and>
           length (data (L1Penalty_grad self A)) = length (data A) \<and>
           (\<forall>i<length (data A).
              data (L1Penalty_grad self A) ! i =
                (if data A ! i > 0 then c else if data A ! i < 0 then - c else 0))"
proof -
  let ?self = "\<lparr>L1Penalty.coefficient = c\<rparr>"
  have init: "L1Penalty_init c = Inr ?self"
    using assms by (simp add: L1Penalty_init_def)
  have shp: "shape (L1Penalty_grad ?self A) = shape A"
    by (simp add: L1Penalty_grad_def shape_scalar_mul shape_np_sign)
  have len: "length (data (L1Penalty_grad ?self A)) = length (data A)"
    by (simp add: L1Penalty_grad_def length_scalar_mul length_np_sign)
  have elt: "data (L1Penalty_grad ?self A) ! i =
      (if data A ! i > 0 then c else if data A ! i < 0 then - c else 0)"
    if "i < length (data A)" for i
  proof -
    have "data (L1Penalty_grad ?self A) ! i = c * sign (data A ! i)"
      using that
      by (simp add: L1Penalty_grad_def nth_scalar_mul length_np_sign nth_np_sign)
    then show ?thesis by (simp add: sign_def)
  qed
  from init shp len elt show ?thesis by blast
qed

theorem L1Penalty_grad_sign_witness:
  "(0::real) < 1 / 2 \<and>
   (\<exists>self. L1Penalty_init (1 / 2) = Inr self \<and>
      shape (L1Penalty_grad self \<lparr>shape = [3], data = [- 2, 0, 3]\<rparr>) = [3] \<and>
      data (L1Penalty_grad self \<lparr>shape = [3], data = [- 2, 0, 3]\<rparr>) ! 0 = - (1 / 2) \<and>
      data (L1Penalty_grad self \<lparr>shape = [3], data = [- 2, 0, 3]\<rparr>) ! 1 = 0 \<and>
      data (L1Penalty_grad self \<lparr>shape = [3], data = [- 2, 0, 3]\<rparr>) ! 2 = 1 / 2)"
proof -
  have pos: "(0::real) < 1 / 2" by simp
  from L1Penalty_grad_sign [OF pos, of "\<lparr>shape = [3], data = [- 2, 0, 3]\<rparr>"]
  obtain self where init: "L1Penalty_init (1 / 2) = Inr self"
    and shp: "shape (L1Penalty_grad self \<lparr>shape = [3], data = [- 2, 0, 3]\<rparr>) = [3]"
    and elt: "\<forall>i<3. data (L1Penalty_grad self \<lparr>shape = [3], data = [- 2, 0, 3]\<rparr>) ! i =
        (if [- 2, 0, 3 :: real] ! i > 0 then 1 / 2
         else if [- 2, 0, 3 :: real] ! i < 0 then - (1 / 2) else 0)"
    by auto
  have e0: "data (L1Penalty_grad self \<lparr>shape = [3], data = [- 2, 0, 3]\<rparr>) ! 0 = - (1 / 2)"
    using elt [rule_format, of 0] by simp
  have e1: "data (L1Penalty_grad self \<lparr>shape = [3], data = [- 2, 0, 3]\<rparr>) ! 1 = 0"
    using elt [rule_format, of 1] by simp
  have e2: "data (L1Penalty_grad self \<lparr>shape = [3], data = [- 2, 0, 3]\<rparr>) ! 2 = 1 / 2"
    using elt [rule_format, of 2] by simp
  from pos init shp e0 e1 e2 show ?thesis by blast
qed

subsection \<open>The L2 penalty\<close>

text \<open>
  C3, on every numeric array.  The value of \<open>L2Penalty(c)\<close> can be zero on an array
  with a non-zero element.  On the \<open>int64\<close> array \<open>[2^32]\<close> with \<open>c = 1\<close> the construction
  succeeds, the square \<open>2^64\<close> wraps to \<open>0\<close>, and the value is \<open>0\<close>.
\<close>

theorem L2Penalty_value_int64_square_wraps:
  "L2Penalty_init 1 = Inr \<lparr>L2Penalty.coefficient = 1\<rparr> \<and>
   L2Penalty_call_i64 \<lparr>L2Penalty.coefficient = 1\<rparr>
     \<lparr>shape_i64 = [1], data_i64 = [4294967296]\<rparr> = 0 \<and>
   (4294967296 :: 64 word) \<noteq> 0"
  by (simp add: L2Penalty_init_def L2Penalty_call_i64_def float_of_i64_def np_sum_i64_def
      np_power_i64_def)

text \<open>
  C3, by element type.  For every floating-point coefficient \<open>c > 0\<close> the construction
  \<open>L2Penalty(c)\<close> succeeds, and on every \<open>float64\<close> array \<open>A\<close> and every \<open>int64\<close> array
  \<open>B\<close> the value of the object is the scalar \<open>0.5 * c * sum(.^2)\<close>, with the square and
  \<open>sum\<close> taken in the arithmetic of the element type; it is zero if every element is
  zero.  On the \<open>float64\<close> array the value is non-negative when \<open>c \<ge> 2^-1073\<close>.  On the
  \<open>int64\<close> array, provided the squares of its elements sum to less than \<open>2^63\<close>, neither
  a square nor the sum wraps, the value is non-negative, and when \<open>c \<ge> 2^-1073\<close> it is
  zero only if every element is zero.

  The bound \<open>c \<ge> 2^-1073\<close> plays no part in the proofs, whose arithmetic is exact.  It
  is there for the program: \<open>0.5 * c\<close> is computed first, and for the one positive double
  below the bound, \<open>2^-1074\<close>, it rounds to zero.  As for C1, nothing is said of when the
  value on a \<open>float64\<close> array is zero beyond the case of an array of zeros.
\<close>

theorem L2Penalty_value_by_dtype:
  assumes "0 < c"
  shows "\<exists>self. L2Penalty_init c = Inr self \<and>
           L2Penalty_call self A = 0.5 * c * (\<Sum>x\<leftarrow>data A. x ^ 2) \<and>
           (1 / 2 ^ 1073 \<le> c \<longrightarrow> 0 \<le> L2Penalty_call self A) \<and>
           ((\<forall>x\<in>set (data A). x = 0) \<longrightarrow> L2Penalty_call self A = 0) \<and>
           L2Penalty_call_i64 self B =
             0.5 * c * real_of_int (sint (sum_list (map (\<lambda>x. x ^ 2) (data_i64 B)))) \<and>
           ((\<forall>x\<in>set (data_i64 B). x = 0) \<longrightarrow> L2Penalty_call_i64 self B = 0) \<and>
           ((\<Sum>x\<leftarrow>data_i64 B. (sint x)\<^sup>2) < 2 ^ 63 \<longrightarrow>
              L2Penalty_call_i64 self B =
                0.5 * c * real_of_int (\<Sum>x\<leftarrow>data_i64 B. (sint x)\<^sup>2) \<and>
              0 \<le> L2Penalty_call_i64 self B \<and>
              (1 / 2 ^ 1073 \<le> c \<longrightarrow> L2Penalty_call_i64 self B = 0 \<longrightarrow>
                 (\<forall>x\<in>set (data_i64 B). x = 0)))"
proof -
  let ?self = "\<lparr>L2Penalty.coefficient = c\<rparr>"
  let ?S = "\<Sum>x\<leftarrow>data_i64 B. (sint x)\<^sup>2"
  have init: "L2Penalty_init c = Inr ?self"
    using assms by (simp add: L2Penalty_init_def)
  have val: "L2Penalty_call ?self A = 0.5 * c * (\<Sum>x\<leftarrow>data A. x ^ 2)"
    by (simp add: L2Penalty_call_def np_sum_def np_power_def)
  have nonneg: "0 \<le> L2Penalty_call ?self A"
    unfolding val using assms sum_list_sq_nonneg [of "data A"] by simp
  have zero: "L2Penalty_call ?self A = 0" if "\<forall>x\<in>set (data A). x = 0"
    unfolding val using that sum_list_sq_eq_0_iff [of "data A"] by simp
  have ival: "L2Penalty_call_i64 ?self B =
      0.5 * c * real_of_int (sint (sum_list (map (\<lambda>x. x ^ 2) (data_i64 B))))"
    by (simp add: L2Penalty_call_i64_def float_of_i64_def np_sum_i64_def np_power_i64_def)
  have izero: "L2Penalty_call_i64 ?self B = 0" if "\<forall>x\<in>set (data_i64 B). x = 0"
    unfolding ival using sum_list_sq_i64_zeros [OF that] by simp
  have exact: "L2Penalty_call_i64 ?self B = 0.5 * c * real_of_int ?S \<and>
      0 \<le> L2Penalty_call_i64 ?self B \<and>
      (1 / 2 ^ 1073 \<le> c \<longrightarrow> L2Penalty_call_i64 ?self B = 0 \<longrightarrow>
         (\<forall>x\<in>set (data_i64 B). x = 0))"
    if small: "?S < 2 ^ 63"
  proof -
    have e: "L2Penalty_call_i64 ?self B = 0.5 * c * real_of_int ?S"
      unfolding ival using sint_sum_sq_i64 [OF small] by simp
    have n: "0 \<le> L2Penalty_call_i64 ?self B"
      unfolding e using assms sum_list_sq_int_nonneg [of "data_i64 B"] by simp
    have z: "\<forall>x\<in>set (data_i64 B). x = 0" if "L2Penalty_call_i64 ?self B = 0"
    proof -
      from that assms have "?S = 0" unfolding e by simp
      then show ?thesis by (simp only: sum_list_sq_int_eq_0_iff)
    qed
    from e n z show ?thesis by blast
  qed
  from init val nonneg zero ival izero exact show ?thesis by blast
qed

theorem L2Penalty_value_by_dtype_witness:
  "(0::real) < 1 / 2 \<and>
   (\<Sum>x\<leftarrow>[- 2, 0, 3 :: 64 word]. (sint x)\<^sup>2) < 2 ^ 63 \<and>
   1 / 2 ^ 1073 \<le> (1 / 2 :: real) \<and>
   (\<exists>self. L2Penalty_init (1 / 2) = Inr self \<and>
      L2Penalty_call self \<lparr>shape = [3], data = [- 2, 0, 3]\<rparr> = 13 / 4 \<and>
      L2Penalty_call self \<lparr>shape = [3], data = [0, 0, 0]\<rparr> = 0 \<and>
      L2Penalty_call_i64 self \<lparr>shape_i64 = [3], data_i64 = [- 2, 0, 3]\<rparr> = 13 / 4 \<and>
      L2Penalty_call_i64 self \<lparr>shape_i64 = [3], data_i64 = [0, 0, 0]\<rparr> = 0)"
proof -
  have pos: "(0::real) < 1 / 2" by simp
  have small: "(\<Sum>x\<leftarrow>[- 2, 0, 3 :: 64 word]. (sint x)\<^sup>2) < 2 ^ 63" by simp
  have big: "1 / 2 ^ 1073 \<le> (1 / 2 :: real)" by simp
  from L2Penalty_value_by_dtype [OF pos, of "\<lparr>shape = [3], data = [- 2, 0, 3]\<rparr>"
      "\<lparr>shape_i64 = [3], data_i64 = [- 2, 0, 3]\<rparr>"]
  obtain self where init: "L2Penalty_init (1 / 2) = Inr self"
    and a: "L2Penalty_call self \<lparr>shape = [3], data = [- 2, 0, 3]\<rparr> = 13 / 4"
    and b: "L2Penalty_call_i64 self \<lparr>shape_i64 = [3], data_i64 = [- 2, 0, 3]\<rparr> = 13 / 4"
    by auto
  from L2Penalty_value_by_dtype [OF pos, of "\<lparr>shape = [3], data = [0, 0, 0]\<rparr>"
      "\<lparr>shape_i64 = [3], data_i64 = [0, 0, 0]\<rparr>"] init
  have c: "L2Penalty_call self \<lparr>shape = [3], data = [0, 0, 0]\<rparr> = 0"
    and d: "L2Penalty_call_i64 self \<lparr>shape_i64 = [3], data_i64 = [0, 0, 0]\<rparr> = 0"
    by auto
  from pos small big init a b c d show ?thesis by blast
qed

text \<open>
  C4.  For every coefficient \<open>c > 0\<close> and every array \<open>A\<close>, \<open>L2Penalty(c).grad(A)\<close> is an
  array of the shape of \<open>A\<close>, with as many elements, whose element at each position is
  exactly \<open>c\<close> times the element of \<open>A\<close> there.
\<close>

theorem L2Penalty_grad_scaled:
  assumes "0 < c"
  shows "\<exists>self. L2Penalty_init c = Inr self \<and>
           shape (L2Penalty_grad self A) = shape A \<and>
           length (data (L2Penalty_grad self A)) = length (data A) \<and>
           (\<forall>i<length (data A). data (L2Penalty_grad self A) ! i = c * data A ! i)"
proof -
  let ?self = "\<lparr>L2Penalty.coefficient = c\<rparr>"
  have init: "L2Penalty_init c = Inr ?self"
    using assms by (simp add: L2Penalty_init_def)
  have shp: "shape (L2Penalty_grad ?self A) = shape A"
    by (simp add: L2Penalty_grad_def shape_scalar_mul)
  have len: "length (data (L2Penalty_grad ?self A)) = length (data A)"
    by (simp add: L2Penalty_grad_def length_scalar_mul)
  have elt: "data (L2Penalty_grad ?self A) ! i = c * data A ! i"
    if "i < length (data A)" for i
    using that by (simp add: L2Penalty_grad_def nth_scalar_mul)
  from init shp len elt show ?thesis by blast
qed

theorem L2Penalty_grad_scaled_witness:
  "(0::real) < 1 / 2 \<and>
   (\<exists>self. L2Penalty_init (1 / 2) = Inr self \<and>
      shape (L2Penalty_grad self \<lparr>shape = [3], data = [- 2, 0, 3]\<rparr>) = [3] \<and>
      data (L2Penalty_grad self \<lparr>shape = [3], data = [- 2, 0, 3]\<rparr>) ! 0 = - 1 \<and>
      data (L2Penalty_grad self \<lparr>shape = [3], data = [- 2, 0, 3]\<rparr>) ! 2 = 3 / 2)"
proof -
  have pos: "(0::real) < 1 / 2" by simp
  from L2Penalty_grad_scaled [OF pos, of "\<lparr>shape = [3], data = [- 2, 0, 3]\<rparr>"]
  obtain self where init: "L2Penalty_init (1 / 2) = Inr self"
    and shp: "shape (L2Penalty_grad self \<lparr>shape = [3], data = [- 2, 0, 3]\<rparr>) = [3]"
    and elt: "\<forall>i<3. data (L2Penalty_grad self \<lparr>shape = [3], data = [- 2, 0, 3]\<rparr>) ! i =
        1 / 2 * [- 2, 0, 3 :: real] ! i"
    by auto
  have e0: "data (L2Penalty_grad self \<lparr>shape = [3], data = [- 2, 0, 3]\<rparr>) ! 0 = - 1"
    using elt [rule_format, of 0] by simp
  have e2: "data (L2Penalty_grad self \<lparr>shape = [3], data = [- 2, 0, 3]\<rparr>) ! 2 = 3 / 2"
    using elt [rule_format, of 2] by simp
  from pos init shp e0 e2 show ?thesis by blast
qed

subsection \<open>Construction\<close>

text \<open>
  C5.  For every coefficient \<open>c\<close>, the construction of \<open>L1Penalty(c)\<close> raises exactly when
  \<open>c \<le> 0\<close>, and so does the construction of \<open>L2Penalty(c)\<close>.  The error raised is the
  assertion error whose message is \<open>Penalty coefficient must be positive.\<close>, which
  contains the words \<open>must be positive\<close>.  A construction that raises returns no object,
  and a construction that does not raise returns the object holding \<open>c\<close>.
\<close>

theorem penalty_init_raises_iff:
  "((\<exists>e. L1Penalty_init c = Inl e) \<longleftrightarrow> c \<le> 0) \<and>
   ((\<exists>e. L2Penalty_init c = Inl e) \<longleftrightarrow> c \<le> 0) \<and>
   (c \<le> 0 \<longrightarrow>
      (\<exists>msg. L1Penalty_init c = Inl (AssertionError msg) \<and>
             L2Penalty_init c = Inl (AssertionError msg) \<and>
             sublist ''must be positive'' msg) \<and>
      (\<forall>self. L1Penalty_init c \<noteq> Inr self) \<and>
      (\<forall>self. L2Penalty_init c \<noteq> Inr self)) \<and>
   (0 < c \<longrightarrow>
      L1Penalty_init c = Inr \<lparr>L1Penalty.coefficient = c\<rparr> \<and>
      L2Penalty_init c = Inr \<lparr>L2Penalty.coefficient = c\<rparr>)"
proof -
  have msg: "sublist ''must be positive'' ''Penalty coefficient must be positive.''"
    by (simp add: sublist_code)
  have l1: "(\<exists>e. L1Penalty_init c = Inl e) \<longleftrightarrow> c \<le> 0"
    by (auto simp: L1Penalty_init_def)
  have l2: "(\<exists>e. L2Penalty_init c = Inl e) \<longleftrightarrow> c \<le> 0"
    by (auto simp: L2Penalty_init_def)
  have bad: "(\<exists>msg. L1Penalty_init c = Inl (AssertionError msg) \<and>
                L2Penalty_init c = Inl (AssertionError msg) \<and>
                sublist ''must be positive'' msg) \<and>
             (\<forall>self. L1Penalty_init c \<noteq> Inr self) \<and>
             (\<forall>self. L2Penalty_init c \<noteq> Inr self)" if "c \<le> 0"
  proof -
    have "L1Penalty_init c = Inl (AssertionError ''Penalty coefficient must be positive.'')"
      and "L2Penalty_init c = Inl (AssertionError ''Penalty coefficient must be positive.'')"
      using that by (simp_all add: L1Penalty_init_def L2Penalty_init_def)
    with msg show ?thesis by simp
  qed
  have good: "L1Penalty_init c = Inr \<lparr>L1Penalty.coefficient = c\<rparr> \<and>
              L2Penalty_init c = Inr \<lparr>L2Penalty.coefficient = c\<rparr>" if "0 < c"
    using that by (simp add: L1Penalty_init_def L2Penalty_init_def)
  from l1 l2 bad good show ?thesis by blast
qed

theorem penalty_init_raises_iff_witness:
  "(\<exists>e. L1Penalty_init 0 = Inl e) \<and>
   (\<exists>e. L1Penalty_init (- 1) = Inl e) \<and>
   (\<exists>e. L2Penalty_init 0 = Inl e) \<and>
   (\<exists>msg. L1Penalty_init (- 1) = Inl (AssertionError msg) \<and>
          sublist ''must be positive'' msg) \<and>
   L1Penalty_init 1.0 = Inr \<lparr>L1Penalty.coefficient = 1.0\<rparr> \<and>
   L2Penalty_init 1.0 = Inr \<lparr>L2Penalty.coefficient = 1.0\<rparr>"
  using penalty_init_raises_iff [of 0] penalty_init_raises_iff [of "- 1"]
    penalty_init_raises_iff [of "1.0"]
  by auto

text \<open>
  C6.  For every pair of coefficients \<open>c1\<close>, \<open>c2\<close>, whatever their signs, the construction
  of \<open>L1L2MixPenalty(c1, c2)\<close> raises nothing and returns the object holding both.
\<close>

theorem L1L2MixPenalty_init_succeeds:
  "\<exists>self. L1L2MixPenalty_init c1 c2 = Inr self \<and>
          l1_coefficient self = c1 \<and> l2_coefficient self = c2"
  by (simp add: L1L2MixPenalty_init_def)

subsection \<open>The mixed penalty\<close>

text \<open>
  C7.  For all coefficients \<open>c1 > 0\<close> and \<open>c2 > 0\<close> the three constructions succeed, and
  on every array \<open>A\<close> the value of \<open>L1L2MixPenalty(c1, c2)\<close> is the value of
  \<open>L1Penalty(c1)\<close> plus the value of \<open>L2Penalty(c2)\<close>.
\<close>

theorem L1L2MixPenalty_value_sum:
  assumes "0 < c1" and "0 < c2"
  shows "\<exists>mix p1 p2.
           L1L2MixPenalty_init c1 c2 = Inr mix \<and>
           L1Penalty_init c1 = Inr p1 \<and>
           L2Penalty_init c2 = Inr p2 \<and>
           L1L2MixPenalty_call mix A = L1Penalty_call p1 A + L2Penalty_call p2 A"
proof -
  let ?mix = "\<lparr>l1_coefficient = c1, l2_coefficient = c2\<rparr>"
  let ?p1 = "\<lparr>L1Penalty.coefficient = c1\<rparr>"
  let ?p2 = "\<lparr>L2Penalty.coefficient = c2\<rparr>"
  have i0: "L1L2MixPenalty_init c1 c2 = Inr ?mix"
    by (simp add: L1L2MixPenalty_init_def)
  have i1: "L1Penalty_init c1 = Inr ?p1"
    using assms(1) by (simp add: L1Penalty_init_def)
  have i2: "L2Penalty_init c2 = Inr ?p2"
    using assms(2) by (simp add: L2Penalty_init_def)
  have "L1L2MixPenalty_call ?mix A = L1Penalty_call ?p1 A + L2Penalty_call ?p2 A"
    by (simp add: L1L2MixPenalty_call_def L1Penalty_call_def L2Penalty_call_def Let_def)
  with i0 i1 i2 show ?thesis by blast
qed

theorem L1L2MixPenalty_value_sum_witness:
  "(0::real) < 1 / 2 \<and>
   (\<exists>mix p1 p2.
      L1L2MixPenalty_init (1 / 2) (1 / 2) = Inr mix \<and>
      L1Penalty_init (1 / 2) = Inr p1 \<and>
      L2Penalty_init (1 / 2) = Inr p2 \<and>
      L1L2MixPenalty_call mix \<lparr>shape = [3], data = [- 2, 0, 3]\<rparr> =
        L1Penalty_call p1 \<lparr>shape = [3], data = [- 2, 0, 3]\<rparr> +
        L2Penalty_call p2 \<lparr>shape = [3], data = [- 2, 0, 3]\<rparr>)"
proof -
  have pos: "(0::real) < 1 / 2" by simp
  from pos L1L2MixPenalty_value_sum [OF pos pos, of "\<lparr>shape = [3], data = [- 2, 0, 3]\<rparr>"]
  show ?thesis by simp
qed

text \<open>
  C10.  For all coefficients \<open>c1 > 0\<close> and \<open>c2 > 0\<close> the three constructions succeed, and
  on every array \<open>A\<close> the gradient of \<open>L1L2MixPenalty(c1, c2)\<close> is returned (the addition
  inside it is of two arrays of one shape), has the shape of \<open>A\<close>, and is the elementwise
  sum of the gradient of \<open>L1Penalty(c1)\<close> and the gradient of \<open>L2Penalty(c2)\<close>.
\<close>

theorem L1L2MixPenalty_grad_sum:
  assumes "0 < c1" and "0 < c2"
  shows "\<exists>mix p1 p2 g.
           L1L2MixPenalty_init c1 c2 = Inr mix \<and>
           L1Penalty_init c1 = Inr p1 \<and>
           L2Penalty_init c2 = Inr p2 \<and>
           L1L2MixPenalty_grad mix A = Inr g \<and>
           np_add (L1Penalty_grad p1 A) (L2Penalty_grad p2 A) = Inr g \<and>
           shape g = shape A \<and>
           length (data g) = length (data A) \<and>
           (\<forall>i<length (data A).
              data g ! i = data (L1Penalty_grad p1 A) ! i + data (L2Penalty_grad p2 A) ! i)"
proof -
  let ?mix = "\<lparr>l1_coefficient = c1, l2_coefficient = c2\<rparr>"
  let ?p1 = "\<lparr>L1Penalty.coefficient = c1\<rparr>"
  let ?p2 = "\<lparr>L2Penalty.coefficient = c2\<rparr>"
  let ?g1 = "L1Penalty_grad ?p1 A"
  let ?g2 = "L2Penalty_grad ?p2 A"
  let ?g = "\<lparr>shape = shape ?g1, data = map2 (+) (data ?g1) (data ?g2)\<rparr>"
  have i0: "L1L2MixPenalty_init c1 c2 = Inr ?mix"
    by (simp add: L1L2MixPenalty_init_def)
  have i1: "L1Penalty_init c1 = Inr ?p1"
    using assms(1) by (simp add: L1Penalty_init_def)
  have i2: "L2Penalty_init c2 = Inr ?p2"
    using assms(2) by (simp add: L2Penalty_init_def)
  have shp1: "shape ?g1 = shape A" and len1: "length (data ?g1) = length (data A)"
    by (simp_all add: L1Penalty_grad_def shape_scalar_mul shape_np_sign
        length_scalar_mul length_np_sign)
  have shp2: "shape ?g2 = shape A" and len2: "length (data ?g2) = length (data A)"
    by (simp_all add: L2Penalty_grad_def shape_scalar_mul length_scalar_mul)
  have add: "np_add ?g1 ?g2 = Inr ?g"
    by (rule np_add_same_shape) (simp_all add: shp1 shp2 len1 len2)
  have mix: "L1L2MixPenalty_grad ?mix A = np_add ?g1 ?g2"
    by (simp add: L1L2MixPenalty_grad_def L1Penalty_grad_def L2Penalty_grad_def Let_def)
  have shp: "shape ?g = shape A"
    by (simp add: shp1)
  have len: "length (data ?g) = length (data A)"
    by (simp add: len1 len2)
  have elt: "data ?g ! i = data ?g1 ! i + data ?g2 ! i" if "i < length (data A)" for i
    using that by (simp add: len1 len2)
  from i0 i1 i2 mix add shp len elt show ?thesis
    by (metis (no_types, lifting))
qed

theorem L1L2MixPenalty_grad_sum_witness:
  "(0::real) < 1 / 2 \<and>
   (\<exists>mix g.
      L1L2MixPenalty_init (1 / 2) (1 / 2) = Inr mix \<and>
      L1L2MixPenalty_grad mix \<lparr>shape = [3], data = [- 2, 0, 3]\<rparr> = Inr g \<and>
      shape g = [3] \<and> length (data g) = 3)"
proof -
  have pos: "(0::real) < 1 / 2" by simp
  from L1L2MixPenalty_grad_sum [OF pos pos, of "\<lparr>shape = [3], data = [- 2, 0, 3]\<rparr>"]
  obtain mix g where "L1L2MixPenalty_init (1 / 2) (1 / 2) = Inr mix"
    and "L1L2MixPenalty_grad mix \<lparr>shape = [3], data = [- 2, 0, 3]\<rparr> = Inr g"
    and "shape g = [3]" and "length (data g) = 3"
    by auto
  with pos show ?thesis by blast
qed

subsection \<open>A concrete scenario\<close>

text \<open>
  C8.  On the array \<open>A = [-2, 0, 3]\<close> with every coefficient \<open>0.5\<close>: the L1 penalty has
  value \<open>2.5\<close> and gradient \<open>[-0.5, 0, 0.5]\<close>; the L2 penalty has value \<open>3.25\<close> and gradient
  \<open>[-1, 0, 1.5]\<close>; the mixed penalty has value \<open>5.75\<close> and gradient \<open>[-1.5, 0, 2.0]\<close>.
\<close>

theorem scenario_minus2_0_3:
  "L1Penalty_init 0.5 = Inr \<lparr>L1Penalty.coefficient = 0.5\<rparr> \<and>
   L1Penalty_call \<lparr>L1Penalty.coefficient = 0.5\<rparr> \<lparr>shape = [3], data = [- 2, 0, 3]\<rparr> = 2.5 \<and>
   L1Penalty_grad \<lparr>L1Penalty.coefficient = 0.5\<rparr> \<lparr>shape = [3], data = [- 2, 0, 3]\<rparr> =
     \<lparr>shape = [3], data = [- 0.5, 0, 0.5]\<rparr> \<and>
   L2Penalty_init 0.5 = Inr \<lparr>L2Penalty.coefficient = 0.5\<rparr> \<and>
   L2Penalty_call \<lparr>L2Penalty.coefficient = 0.5\<rparr> \<lparr>shape = [3], data = [- 2, 0, 3]\<rparr> = 3.25 \<and>
   L2Penalty_grad \<lparr>L2Penalty.coefficient = 0.5\<rparr> \<lparr>shape = [3], data = [- 2, 0, 3]\<rparr> =
     \<lparr>shape = [3], data = [- 1, 0, 1.5]\<rparr> \<and>
   L1L2MixPenalty_init 0.5 0.5 = Inr \<lparr>l1_coefficient = 0.5, l2_coefficient = 0.5\<rparr> \<and>
   L1L2MixPenalty_call \<lparr>l1_coefficient = 0.5, l2_coefficient = 0.5\<rparr>
     \<lparr>shape = [3], data = [- 2, 0, 3]\<rparr> = 5.75 \<and>
   L1L2MixPenalty_grad \<lparr>l1_coefficient = 0.5, l2_coefficient = 0.5\<rparr>
     \<lparr>shape = [3], data = [- 2, 0, 3]\<rparr> = Inr \<lparr>shape = [3], data = [- 1.5, 0, 2.0]\<rparr>"
proof -
  let ?A = "\<lparr>shape = [3], data = [- 2, 0, 3]\<rparr>"
  have a1: "L1Penalty_init 0.5 = Inr \<lparr>L1Penalty.coefficient = 0.5\<rparr>"
    by (simp add: L1Penalty_init_def)
  have a2: "L1Penalty_call \<lparr>L1Penalty.coefficient = 0.5\<rparr> ?A = 2.5"
    by (simp add: L1Penalty_call_def np_sum_def np_abs_def)
  have a3: "L1Penalty_grad \<lparr>L1Penalty.coefficient = 0.5\<rparr> ?A =
      \<lparr>shape = [3], data = [- 0.5, 0, 0.5]\<rparr>"
    by (simp add: L1Penalty_grad_def scalar_mul_def np_sign_def sign_def)
  have b1: "L2Penalty_init 0.5 = Inr \<lparr>L2Penalty.coefficient = 0.5\<rparr>"
    by (simp add: L2Penalty_init_def)
  have b2: "L2Penalty_call \<lparr>L2Penalty.coefficient = 0.5\<rparr> ?A = 3.25"
    by (simp add: L2Penalty_call_def np_sum_def np_power_def)
  have b3: "L2Penalty_grad \<lparr>L2Penalty.coefficient = 0.5\<rparr> ?A =
      \<lparr>shape = [3], data = [- 1, 0, 1.5]\<rparr>"
    by (simp add: L2Penalty_grad_def scalar_mul_def)
  have c1: "L1L2MixPenalty_init 0.5 0.5 = Inr \<lparr>l1_coefficient = 0.5, l2_coefficient = 0.5\<rparr>"
    by (simp add: L1L2MixPenalty_init_def)
  have c2: "L1L2MixPenalty_call \<lparr>l1_coefficient = 0.5, l2_coefficient = 0.5\<rparr> ?A = 5.75"
    by (simp add: L1L2MixPenalty_call_def np_sum_def np_abs_def np_power_def Let_def)
  have c3: "L1L2MixPenalty_grad \<lparr>l1_coefficient = 0.5, l2_coefficient = 0.5\<rparr> ?A =
      Inr \<lparr>shape = [3], data = [- 1.5, 0, 2.0]\<rparr>"
    by (simp add: L1L2MixPenalty_grad_def np_add_def scalar_mul_def np_sign_def sign_def
        Let_def)
  from a1 a2 a3 b1 b2 b3 c1 c2 c3 show ?thesis by blast
qed

subsection \<open>What a call leaves unchanged\<close>

lemma np_abs_st_eq:
  "r < length s \<Longrightarrow> np_abs_st r s = Inr (length s, s @ [np_abs (s ! r)])"
  by (simp add: np_abs_st_def load_def alloc_def)

lemma np_sign_st_eq:
  "r < length s \<Longrightarrow> np_sign_st r s = Inr (length s, s @ [np_sign (s ! r)])"
  by (simp add: np_sign_st_def load_def alloc_def)

lemma np_power_st_eq:
  "r < length s \<Longrightarrow> np_power_st r n s = Inr (length s, s @ [np_power (s ! r) n])"
  by (simp add: np_power_st_def load_def alloc_def)

lemma np_sum_st_eq:
  "r < length s \<Longrightarrow> np_sum_st r s = Inr (np_sum (s ! r), s)"
  by (simp add: np_sum_st_def load_def)

lemma scalar_mul_st_eq:
  "r < length s \<Longrightarrow> scalar_mul_st c r s = Inr (length s, s @ [scalar_mul c (s ! r)])"
  by (simp add: scalar_mul_st_def load_def alloc_def)

lemma np_add_st_eq:
  assumes "r1 < length s" and "r2 < length s" and "np_add (s ! r1) (s ! r2) = Inr x"
  shows "np_add_st r1 r2 s = Inr (length s, s @ [x])"
  using assms by (simp add: np_add_st_def load_def alloc_def)

lemma L1Penalty_call_st_eq:
  assumes "parameter < length s"
  shows "L1Penalty_call_st self parameter s =
    Inr (L1Penalty_call self (s ! parameter), self, s @ [np_abs (s ! parameter)])"
  using assms
  by (simp add: L1Penalty_call_st_def np_abs_st_eq np_sum_st_eq L1Penalty_call_def)

lemma L1Penalty_grad_st_eq:
  assumes "parameter < length s"
  shows "L1Penalty_grad_st self parameter s =
    Inr (Suc (length s), self,
         s @ [np_sign (s ! parameter), L1Penalty_grad self (s ! parameter)])"
  using assms
  by (simp add: L1Penalty_grad_st_def np_sign_st_eq scalar_mul_st_eq L1Penalty_grad_def)

lemma L2Penalty_call_st_eq:
  assumes "parameter < length s"
  shows "L2Penalty_call_st self parameter s =
    Inr (L2Penalty_call self (s ! parameter), self, s @ [np_power (s ! parameter) 2])"
  using assms
  by (simp add: L2Penalty_call_st_def np_power_st_eq np_sum_st_eq L2Penalty_call_def)

lemma L2Penalty_grad_st_eq:
  assumes "parameter < length s"
  shows "L2Penalty_grad_st self parameter s =
    Inr (length s, self, s @ [L2Penalty_grad self (s ! parameter)])"
  using assms
  by (simp add: L2Penalty_grad_st_def scalar_mul_st_eq L2Penalty_grad_def)

lemma L1L2MixPenalty_call_st_eq:
  assumes "parameter < length s"
  shows "L1L2MixPenalty_call_st self parameter s =
    Inr (L1L2MixPenalty_call self (s ! parameter), self,
         s @ [np_abs (s ! parameter), np_power (s ! parameter) 2])"
  using assms
  by (simp add: L1L2MixPenalty_call_st_def np_abs_st_eq np_sum_st_eq np_power_st_eq
      L1L2MixPenalty_call_def nth_append Let_def)

lemma L1L2MixPenalty_grad_total:
  "\<exists>g. L1L2MixPenalty_grad self a = Inr g"
  by (simp add: L1L2MixPenalty_grad_def np_add_def scalar_mul_def np_sign_def Let_def)

lemma L1L2MixPenalty_grad_st_eq:
  assumes "parameter < length s" and "L1L2MixPenalty_grad self (s ! parameter) = Inr g"
  shows "L1L2MixPenalty_grad_st self parameter s =
    Inr (Suc (Suc (Suc (length s))), self,
         s @ [np_sign (s ! parameter),
              scalar_mul (l1_coefficient self) (np_sign (s ! parameter)),
              scalar_mul (l2_coefficient self) (s ! parameter), g])"
proof -
  let ?a = "s ! parameter"
  let ?s1 = "s @ [np_sign ?a]"
  let ?s2 = "?s1 @ [scalar_mul (l1_coefficient self) (np_sign ?a)]"
  let ?s3 = "?s2 @ [scalar_mul (l2_coefficient self) ?a]"
  have st1: "np_sign_st parameter s = Inr (length s, ?s1)"
    using assms(1) by (rule np_sign_st_eq)
  have st2: "scalar_mul_st (l1_coefficient self) (length s) ?s1 = Inr (length ?s1, ?s2)"
    using scalar_mul_st_eq [of "length s" ?s1 "l1_coefficient self"] by simp
  have st3: "scalar_mul_st (l2_coefficient self) parameter ?s2 = Inr (length ?s2, ?s3)"
    using assms(1) scalar_mul_st_eq [of parameter ?s2 "l2_coefficient self"]
    by (simp add: nth_append)
  have rd1: "?s3 ! length ?s1 = scalar_mul (l1_coefficient self) (np_sign ?a)"
    by (simp add: nth_append)
  have rd2: "?s3 ! length ?s2 = scalar_mul (l2_coefficient self) ?a"
    by (simp add: nth_append)
  have "np_add (?s3 ! length ?s1) (?s3 ! length ?s2) = Inr g"
    unfolding rd1 rd2 using assms(2) by (simp add: L1L2MixPenalty_grad_def Let_def)
  then have st4: "np_add_st (length ?s1) (length ?s2) ?s3 = Inr (length ?s3, ?s3 @ [g])"
    by (intro np_add_st_eq) simp_all
  show ?thesis
    unfolding L1L2MixPenalty_grad_st_def st1 using st2 st3 st4 by simp
qed

text \<open>
  C9.  For each of the three penalty objects and every array held at an address of the
  store, the call of the value and the call of the gradient return, leave the object
  \<open>self\<close> and with it its coefficient fields as they were, and leave every array that was
  in the store before the call, the parameter among them, as it was: the store after the
  call is the store before it followed by fresh cells.  The value returned, and the
  array at the fresh address returned by the gradient, are the results of the pure
  functions above on \<open>self\<close> and the array read through the parameter.
\<close>

theorem penalty_calls_frame:
  assumes "parameter < length s"
  shows "(\<exists>s'. L1Penalty_call_st p1 parameter s =
              Inr (L1Penalty_call p1 (s ! parameter), p1, s') \<and>
            take (length s) s' = s \<and> s' ! parameter = s ! parameter) \<and>
         (\<exists>g s'. L1Penalty_grad_st p1 parameter s = Inr (g, p1, s') \<and>
            take (length s) s' = s \<and> s' ! parameter = s ! parameter \<and>
            length s \<le> g \<and> g < length s' \<and>
            s' ! g = L1Penalty_grad p1 (s ! parameter)) \<and>
         (\<exists>s'. L2Penalty_call_st p2 parameter s =
              Inr (L2Penalty_call p2 (s ! parameter), p2, s') \<and>
            take (length s) s' = s \<and> s' ! parameter = s ! parameter) \<and>
         (\<exists>g s'. L2Penalty_grad_st p2 parameter s = Inr (g, p2, s') \<and>
            take (length s) s' = s \<and> s' ! parameter = s ! parameter \<and>
            length s \<le> g \<and> g < length s' \<and>
            s' ! g = L2Penalty_grad p2 (s ! parameter)) \<and>
         (\<exists>s'. L1L2MixPenalty_call_st mix parameter s =
              Inr (L1L2MixPenalty_call mix (s ! parameter), mix, s') \<and>
            take (length s) s' = s \<and> s' ! parameter = s ! parameter) \<and>
         (\<exists>g s'. L1L2MixPenalty_grad_st mix parameter s = Inr (g, mix, s') \<and>
            take (length s) s' = s \<and> s' ! parameter = s ! parameter \<and>
            length s \<le> g \<and> g < length s' \<and>
            L1L2MixPenalty_grad mix (s ! parameter) = Inr (s' ! g))"
proof -
  have old: "take (length s) (s @ xs) = s \<and> (s @ xs) ! parameter = s ! parameter" for xs
    using assms by (simp add: nth_append)
  have a: "\<exists>s'. L1Penalty_call_st p1 parameter s =
              Inr (L1Penalty_call p1 (s ! parameter), p1, s') \<and>
            take (length s) s' = s \<and> s' ! parameter = s ! parameter"
    using L1Penalty_call_st_eq [OF assms, of p1] old by blast
  have b: "\<exists>g s'. L1Penalty_grad_st p1 parameter s = Inr (g, p1, s') \<and>
            take (length s) s' = s \<and> s' ! parameter = s ! parameter \<and>
            length s \<le> g \<and> g < length s' \<and>
            s' ! g = L1Penalty_grad p1 (s ! parameter)"
  proof (intro exI conjI)
    show "L1Penalty_grad_st p1 parameter s = Inr (Suc (length s), p1,
        s @ [np_sign (s ! parameter), L1Penalty_grad p1 (s ! parameter)])"
      by (rule L1Penalty_grad_st_eq [OF assms])
  qed (use old in \<open>simp_all add: nth_append\<close>)
  have c: "\<exists>s'. L2Penalty_call_st p2 parameter s =
              Inr (L2Penalty_call p2 (s ! parameter), p2, s') \<and>
            take (length s) s' = s \<and> s' ! parameter = s ! parameter"
    using L2Penalty_call_st_eq [OF assms, of p2] old by blast
  have d: "\<exists>g s'. L2Penalty_grad_st p2 parameter s = Inr (g, p2, s') \<and>
            take (length s) s' = s \<and> s' ! parameter = s ! parameter \<and>
            length s \<le> g \<and> g < length s' \<and>
            s' ! g = L2Penalty_grad p2 (s ! parameter)"
  proof (intro exI conjI)
    show "L2Penalty_grad_st p2 parameter s =
        Inr (length s, p2, s @ [L2Penalty_grad p2 (s ! parameter)])"
      by (rule L2Penalty_grad_st_eq [OF assms])
  qed (use old in \<open>simp_all add: nth_append\<close>)
  have e: "\<exists>s'. L1L2MixPenalty_call_st mix parameter s =
              Inr (L1L2MixPenalty_call mix (s ! parameter), mix, s') \<and>
            take (length s) s' = s \<and> s' ! parameter = s ! parameter"
    using L1L2MixPenalty_call_st_eq [OF assms, of mix] old by blast
  obtain gm where gm: "L1L2MixPenalty_grad mix (s ! parameter) = Inr gm"
    using L1L2MixPenalty_grad_total by blast
  have f: "\<exists>g s'. L1L2MixPenalty_grad_st mix parameter s = Inr (g, mix, s') \<and>
            take (length s) s' = s \<and> s' ! parameter = s ! parameter \<and>
            length s \<le> g \<and> g < length s' \<and>
            L1L2MixPenalty_grad mix (s ! parameter) = Inr (s' ! g)"
  proof (intro exI conjI)
    show "L1L2MixPenalty_grad_st mix parameter s =
        Inr (Suc (Suc (Suc (length s))), mix,
         s @ [np_sign (s ! parameter),
              scalar_mul (l1_coefficient mix) (np_sign (s ! parameter)),
              scalar_mul (l2_coefficient mix) (s ! parameter), gm])"
      by (rule L1L2MixPenalty_grad_st_eq [OF assms gm])
  qed (use old gm in \<open>simp_all add: nth_append\<close>)
  from a b c d e f show ?thesis by blast
qed

theorem penalty_calls_frame_witness:
  "(0::nat) < length [\<lparr>shape = [3], data = [- 2, 0, 3]\<rparr>] \<and>
   (\<exists>s'. L1Penalty_call_st \<lparr>L1Penalty.coefficient = 1 / 2\<rparr> 0
            [\<lparr>shape = [3], data = [- 2, 0, 3]\<rparr>] =
            Inr (5 / 2, \<lparr>L1Penalty.coefficient = 1 / 2\<rparr>, s') \<and>
          s' ! 0 = \<lparr>shape = [3], data = [- 2, 0, 3]\<rparr>) \<and>
   (\<exists>g s'. L2Penalty_grad_st \<lparr>L2Penalty.coefficient = 1 / 2\<rparr> 0
            [\<lparr>shape = [3], data = [- 2, 0, 3]\<rparr>] =
            Inr (g, \<lparr>L2Penalty.coefficient = 1 / 2\<rparr>, s') \<and>
          s' ! 0 = \<lparr>shape = [3], data = [- 2, 0, 3]\<rparr> \<and>
          1 \<le> g \<and>
          s' ! g = \<lparr>shape = [3], data = [- 1, 0, 3 / 2]\<rparr>) \<and>
   (\<exists>g s'. L1L2MixPenalty_grad_st \<lparr>l1_coefficient = 1 / 2, l2_coefficient = 1 / 2\<rparr> 0
            [\<lparr>shape = [3], data = [- 2, 0, 3]\<rparr>] =
            Inr (g, \<lparr>l1_coefficient = 1 / 2, l2_coefficient = 1 / 2\<rparr>, s') \<and>
          s' ! 0 = \<lparr>shape = [3], data = [- 2, 0, 3]\<rparr> \<and>
          1 \<le> g \<and>
          s' ! g = \<lparr>shape = [3], data = [- 3 / 2, 0, 2]\<rparr>)"
proof -
  let ?A = "\<lparr>shape = [3], data = [- 2, 0, 3]\<rparr>"
  let ?p1 = "\<lparr>L1Penalty.coefficient = 1 / 2\<rparr>"
  let ?p2 = "\<lparr>L2Penalty.coefficient = 1 / 2\<rparr>"
  let ?mix = "\<lparr>l1_coefficient = 1 / 2, l2_coefficient = 1 / 2\<rparr>"
  have len: "(0::nat) < length [?A]" by simp
  have v1: "L1Penalty_call ?p1 ?A = 5 / 2"
    by (simp add: L1Penalty_call_def np_sum_def np_abs_def)
  have v2: "L2Penalty_grad ?p2 ?A = \<lparr>shape = [3], data = [- 1, 0, 3 / 2]\<rparr>"
    by (simp add: L2Penalty_grad_def scalar_mul_def)
  have v3: "L1L2MixPenalty_grad ?mix ?A = Inr \<lparr>shape = [3], data = [- 3 / 2, 0, 2]\<rparr>"
    by (simp add: L1L2MixPenalty_grad_def np_add_def scalar_mul_def np_sign_def sign_def
        Let_def)
  note fr = penalty_calls_frame [OF len, of ?p1 ?p2 ?mix]
  from fr have a: "\<exists>s'. L1Penalty_call_st ?p1 0 [?A] = Inr (5 / 2, ?p1, s') \<and> s' ! 0 = ?A"
    unfolding nth_Cons_0 v1 by blast
  from fr have b: "\<exists>g s'. L2Penalty_grad_st ?p2 0 [?A] = Inr (g, ?p2, s') \<and> s' ! 0 = ?A \<and>
      1 \<le> g \<and> s' ! g = \<lparr>shape = [3], data = [- 1, 0, 3 / 2]\<rparr>"
    unfolding nth_Cons_0 v2 by (simp only: list.size) auto
  from fr have c: "\<exists>g s'. L1L2MixPenalty_grad_st ?mix 0 [?A] = Inr (g, ?mix, s') \<and>
      s' ! 0 = ?A \<and> 1 \<le> g \<and> s' ! g = \<lparr>shape = [3], data = [- 3 / 2, 0, 2]\<rparr>"
    unfolding nth_Cons_0 v3 by (simp only: list.size) auto
  from len a b c show ?thesis by blast
qed

end
